theory Spec2Isabelle
  imports Complex_Main
begin

section \<open>Data model of \<^verbatim>\<open>src/dia/Element.mjs\<close>\<close>

text \<open>
  The element model of the diagramming library: an element owns the attributes
  \<^verbatim>\<open>position\<close>, \<^verbatim>\<open>size\<close> and \<^verbatim>\<open>angle\<close>, may be a member of a graph, and may embed
  other cells. JavaScript numbers are modelled as real numbers: the arithmetic of the
  source is read exactly, without rounding, and the place where a double leaves the reals
  (the division by zero in \<^verbatim>\<open>resize\<close>) is written out where it occurs.
\<close>

type_synonym cell_id = string

datatype point = Point (point_x: real) (point_y: real)

datatype dims = Dims (dims_width: real) (dims_height: real)

datatype rect = Rect (rect_x: real) (rect_y: real) (rect_width: real) (rect_height: real)

text \<open>
  An element with the cells its \<^verbatim>\<open>embeds\<close> attribute resolves to. The embedding is a
  tree relation (spec, section 3), so the resolved cells are kept as the subtrees of the
  node; \<open>graph\<close> is the source's \<^verbatim>\<open>this.graph\<close> (the element is a member of a graph).
\<close>

datatype element =
  Element (cid: cell_id) (attr_position: point) (attr_size: dims) (attr_angle: real)
          (graph: bool) (embeds: "element list")

text \<open>The cell that \<^verbatim>\<open>getParentCell()\<close> resolves to: a link, or an element with a position.\<close>

datatype parent_cell = LinkCell | ElementCell point

text \<open>
  The value of \<^verbatim>\<open>opt.transition\<close> when it is truthy: an object with its properties, or
  any other truthy value (\<^verbatim>\<open>true\<close>).
\<close>

datatype transition_opt = NonObject | Object "(string \<times> string) list"

datatype sides = Sides (side_top: real) (side_right: real) (side_bottom: real) (side_left: real)

datatype padding_arg = Uniform real | PerSide sides

text \<open>
  The options object, with the fields this file reads or writes. An optional field is
  \<open>None\<close> when it is absent (or holds a falsy value), a flag is \<open>False\<close> then. A call that
  omits the options argument passes \<open>no_options\<close> (the source's \<^verbatim>\<open>opt || {}\<close>).
\<close>

record options =
  parentRelative :: bool
  deep :: bool
  translateBy :: "cell_id option"
  restrictedArea :: "rect option"
  opt_tx :: "real option"
  opt_ty :: "real option"
  transition :: "transition_opt option"
  direction :: "string option"
  absolute :: bool
  padding :: "padding_arg option"

definition no_options :: options where
  "no_options = \<lparr> parentRelative = False, deep = False, translateBy = None,
     restrictedArea = None, opt_tx = None, opt_ty = None, transition = None,
     direction = None, absolute = False, padding = None \<rparr>"

text \<open>
  The calls an element makes on its collaborators (the attribute store, the batch
  brackets and the animation driver), in the order they are made.
\<close>

datatype event =
    StartBatch cell_id string
  | StopBatch cell_id string
  | SetPosition cell_id point
  | SetSize cell_id dims
  | SetAngle cell_id real
  | SetPositionSize cell_id point dims
  | Transition cell_id point "(string \<times> string) list"

text \<open>
  The ways a call ends without returning: the source's one explicit error
  (\<^verbatim>\<open>'Element must be part of a graph.'\<close>), the type error of calling or reading through
  \<^verbatim>\<open>undefined\<close> or \<^verbatim>\<open>null\<close>, and \<open>NotANumber\<close> for a computation that leaves the real numbers
  (\<^verbatim>\<open>0 / 0\<close>: the source does not raise there, it goes on with \<^verbatim>\<open>NaN\<close> coordinates, which
  this model does not represent).
\<close>

datatype error = NotInGraph | TypeError | NotANumber

section \<open>The geometry kernel\<close>

text \<open>
  Modelled from the spec: the geometry kernel \<^verbatim>\<open>../g/index.mjs\<close> is not part of the
  sources. The spec (sections 2 and 6) names its operations: angle normalization into
  \<open>[0, 360)\<close>, radians conversion, rotation of a point around a center, polar point
  construction, point offset and difference, rectangle corners, union and expansion.
  The kernel works in screen coordinates: the y axis points down.
\<close>

definition normalizeAngle :: "real \<Rightarrow> real" where
  "normalizeAngle a = a - 360 * of_int \<lfloor>a / 360\<rfloor>"

definition toRad :: "real \<Rightarrow> real" where
  "toRad d = d * pi / 180"

text \<open>Modelled from the spec: \<^verbatim>\<open>Point(p).rotate(o, angle)\<close>, rotation of a point around a center.\<close>

definition point_rotate :: "point \<Rightarrow> point \<Rightarrow> real \<Rightarrow> point" where
  "point_rotate p o_pt a =
     (let t = toRad (normalizeAngle (- a));
          vx = point_x p - point_x o_pt;
          vy = point_y p - point_y o_pt
      in Point (cos t * vx - sin t * vy + point_x o_pt)
               (sin t * vx + cos t * vy + point_y o_pt))"

text \<open>
  Modelled from the spec: \<^verbatim>\<open>Point.fromPolar(distance, angle, origin)\<close>, the point at a polar
  offset (angle in radians, counted anti-clockwise on the screen) from an origin.
\<close>

definition fromPolar :: "real \<Rightarrow> real \<Rightarrow> point \<Rightarrow> point" where
  "fromPolar r alpha o_pt = Point (point_x o_pt + r * cos alpha) (point_y o_pt - r * sin alpha)"

definition point_offset :: "point \<Rightarrow> real \<Rightarrow> real \<Rightarrow> point" where
  "point_offset p dx dy = Point (point_x p + dx) (point_y p + dy)"

definition point_difference :: "point \<Rightarrow> point \<Rightarrow> point" where
  "point_difference p q = Point (point_x p - point_x q) (point_y p - point_y q)"

definition rect_origin :: "rect \<Rightarrow> point" where
  "rect_origin r = Point (rect_x r) (rect_y r)"

definition rect_corner :: "rect \<Rightarrow> point" where
  "rect_corner r = Point (rect_x r + rect_width r) (rect_y r + rect_height r)"

definition rect_topRight :: "rect \<Rightarrow> point" where
  "rect_topRight r = Point (rect_x r + rect_width r) (rect_y r)"

definition rect_bottomLeft :: "rect \<Rightarrow> point" where
  "rect_bottomLeft r = Point (rect_x r) (rect_y r + rect_height r)"

definition rect_center :: "rect \<Rightarrow> point" where
  "rect_center r = Point (rect_x r + rect_width r / 2) (rect_y r + rect_height r / 2)"

definition rect_union :: "rect \<Rightarrow> rect \<Rightarrow> rect" where
  "rect_union r1 r2 =
     (let originX = min (rect_x r1) (rect_x r2);
          originY = min (rect_y r1) (rect_y r2);
          cornerX = max (rect_x r1 + rect_width r1) (rect_x r2 + rect_width r2);
          cornerY = max (rect_y r1 + rect_height r1) (rect_y r2 + rect_height r2)
      in Rect originX originY (cornerX - originX) (cornerY - originY))"

definition moveAndExpand :: "rect \<Rightarrow> rect \<Rightarrow> rect" where
  "moveAndExpand r d =
     Rect (rect_x r + rect_x d) (rect_y r + rect_y d)
          (rect_width r + rect_width d) (rect_height r + rect_height d)"

section \<open>The embedding accessor and the graph\<close>

text \<open>
  Modelled from the spec: \<^verbatim>\<open>getEmbeddedCells\<close> lives in \<^verbatim>\<open>Cell.mjs\<close>, which is not part of
  the sources. It resolves the embedded cells through the graph (spec, sections 2 and
  6), so an element that is not a member of a graph has none to offer.
\<close>

definition getEmbeddedCells :: "element \<Rightarrow> element list" where
  "getEmbeddedCells e = (if graph e then embeds e else [])"

lemma size_getEmbeddedCells:
  "size_list size (getEmbeddedCells e) < size e"
  by (cases e) (simp add: getEmbeddedCells_def)

lemma sum_size_getEmbeddedCells:
  "sum_list (map size (getEmbeddedCells e)) < size e"
proof -
  have le: "sum_list (map size xs) \<le> size_list size xs" for xs :: "element list"
    by (induction xs) auto
  show ?thesis
    using le [of "embeds e"] by (cases e) (simp add: getEmbeddedCells_def)
qed

text \<open>
  Modelled from the spec: \<^verbatim>\<open>getEmbeddedCells({ deep: true, breadthFirst: true })\<close>, every
  embedded descendant in breadth-first order, computed with a queue and no recursion on
  the hierarchy (spec, section 4.6).
\<close>

function breadthFirst :: "element list \<Rightarrow> element list" where
  "breadthFirst [] = []"
| "breadthFirst (c # queue) = c # breadthFirst (queue @ getEmbeddedCells c)"
  by pat_completeness auto
termination
  by (relation "measure (\<lambda>queue. sum_list (map size queue))")
     (use sum_size_getEmbeddedCells in \<open>auto simp: less_Suc_eq_le\<close>)

definition getEmbeddedCells_deep :: "element \<Rightarrow> element list" where
  "getEmbeddedCells_deep e = (if graph e then breadthFirst (getEmbeddedCells e) else [])"

text \<open>The rectangle of an element's own position and size (the tail of \<^verbatim>\<open>getBBox\<close>).\<close>

definition own_rect :: "element \<Rightarrow> rect" where
  "own_rect e =
     Rect (point_x (attr_position e)) (point_y (attr_position e))
          (dims_width (attr_size e)) (dims_height (attr_size e))"

text \<open>
  Modelled from the spec: \<^verbatim>\<open>graph.getCellsBBox(cells)\<close> is the union box of the cells' own
  boxes (spec, sections 3 and 6); \<open>None\<close> is the \<^verbatim>\<open>null\<close> of an empty list.
\<close>

fun getCellsBBox :: "element list \<Rightarrow> rect option" where
  "getCellsBBox [] = None"
| "getCellsBBox (c # cs) = Some (fold (\<lambda>cell memo. rect_union memo (own_rect cell)) cs (own_rect c))"

section \<open>The operations of the element\<close>

subsection \<open>getBBox\<close>

definition getBBox :: "options \<Rightarrow> element \<Rightarrow> rect option" where
  "getBBox opt e =
     (if deep opt \<and> graph e
      then getCellsBBox (getEmbeddedCells_deep e @ [e])
      else Some (own_rect e))"

subsection \<open>translate\<close>

text \<open>
  Lines 100--127 of \<^verbatim>\<open>translate\<close>: with a restricted area, and only in the call that started
  the translation, the requested delta is replaced by the delta to the clamped position.
\<close>

definition restrictTranslation :: "options \<Rightarrow> element \<Rightarrow> real \<Rightarrow> real \<Rightarrow> error + (real \<times> real)" where
  "restrictTranslation opt e tx ty =
     (case restrictedArea opt of
        None \<Rightarrow> Inr (tx, ty)
      | Some ra \<Rightarrow>
          if translateBy opt = Some (cid e) then
            (case getBBox (no_options\<lparr>deep := True\<rparr>) e of
               None \<Rightarrow> Inl TypeError
             | Some bbox \<Rightarrow>
                 let position = attr_position e;
                     dx = point_x position - rect_x bbox;
                     dy = point_y position - rect_y bbox;
                     x = max (rect_x ra + dx)
                           (min (rect_x ra + rect_width ra + dx - rect_width bbox) (point_x position + tx));
                     y = max (rect_y ra + dy)
                           (min (rect_y ra + rect_height ra + dy - rect_height bbox) (point_y position + ty))
                 in Inr (x - point_x position, y - point_y position))
          else Inr (tx, ty))"

text \<open>Line 96 of \<^verbatim>\<open>translate\<close>, the initiator of the translation: \<^verbatim>\<open>opt.translateBy || this.id\<close>.\<close>

definition initiator :: "options \<Rightarrow> element \<Rightarrow> cell_id" where
  "initiator opt e = (case translateBy opt of None \<Rightarrow> cid e | Some t \<Rightarrow> t)"

text \<open>
  The settings handed to the animation driver:
  \<^verbatim>\<open>assign({}, opt.transition, { valueFunction: interpolate.object })\<close>.
\<close>

definition transitionSettings :: "transition_opt \<Rightarrow> (string \<times> string) list" where
  "transitionSettings tr =
     (case tr of NonObject \<Rightarrow> [] | Object props \<Rightarrow> props) @ [(''valueFunction'', ''interpolate.object'')]"

text \<open>
  \<^verbatim>\<open>translate(tx, ty, opt)\<close>. An omitted or falsy \<^verbatim>\<open>tx\<close> is \<open>None\<close> or \<open>Some 0\<close>. The call
  returns the element with its embedded cells as they are afterwards, the options object
  as the call leaves it (the source writes into the caller's object) and the trace of
  collaborator calls.
  \<open>invoke_translate\<close> is \<^verbatim>\<open>invoke(cells, 'translate', tx, ty, opt)\<close>. The transition branch
  hands the new position to the animation driver and does not set it.
\<close>

function translate :: "real option \<Rightarrow> real option \<Rightarrow> options \<Rightarrow> element \<Rightarrow> event list
      \<Rightarrow> error + (element \<times> options \<times> event list)"
  and invoke_translate :: "real \<Rightarrow> real \<Rightarrow> options \<Rightarrow> element list \<Rightarrow> event list
      \<Rightarrow> error + (element list \<times> options \<times> event list)"
where
  "translate tx_arg ty_arg opt e trace =
     (let tx = (case tx_arg of None \<Rightarrow> 0 | Some v \<Rightarrow> v);
          ty = (case ty_arg of None \<Rightarrow> 0 | Some v \<Rightarrow> v)
      in if tx = 0 \<and> ty = 0 then Inr (e, opt, trace)
         else
           let opt = opt\<lparr>translateBy := Some (initiator opt e)\<rparr>;
               position = attr_position e
           in case restrictTranslation opt e tx ty of
                Inl err \<Rightarrow> Inl err
              | Inr (tx, ty) \<Rightarrow>
                  let translatedPosition = Point (point_x position + tx) (point_y position + ty);
                      opt = opt\<lparr>opt_tx := Some tx, opt_ty := Some ty\<rparr>
                  in (case transition opt of
                       Some tr \<Rightarrow>
                         let opt = (case tr of NonObject \<Rightarrow> opt\<lparr>transition := Some (Object [])\<rparr>
                                    | Object props \<Rightarrow> opt);
                             trace = trace @ [Transition (cid e) translatedPosition
                                            (transitionSettings (case tr of NonObject \<Rightarrow> Object [] | Object props \<Rightarrow> tr))]
                         in (case invoke_translate tx ty opt (getEmbeddedCells e) trace of
                               Inl err \<Rightarrow> Inl err
                             | Inr (cells, opt, trace) \<Rightarrow>
                                 Inr (Element (cid e) position (attr_size e) (attr_angle e) (graph e)
                                        (if graph e then cells else embeds e), opt, trace))
                     | None \<Rightarrow>
                         let trace = trace @ [StartBatch (cid e) ''translate''];
                             trace = trace @ [SetPosition (cid e) translatedPosition]
                         in (case invoke_translate tx ty opt (getEmbeddedCells e) trace of
                               Inl err \<Rightarrow> Inl err
                             | Inr (cells, opt, trace) \<Rightarrow>
                                 Inr (Element (cid e) translatedPosition (attr_size e) (attr_angle e) (graph e)
                                        (if graph e then cells else embeds e), opt,
                                      trace @ [StopBatch (cid e) ''translate'']))))"
| "invoke_translate tx ty opt [] trace = Inr ([], opt, trace)"
| "invoke_translate tx ty opt (c # cs) trace =
     (case translate (Some tx) (Some ty) opt c trace of
        Inl err \<Rightarrow> Inl err
      | Inr (c', opt, trace) \<Rightarrow>
          (case invoke_translate tx ty opt cs trace of
             Inl err \<Rightarrow> Inl err
           | Inr (cs', opt, trace) \<Rightarrow> Inr (c' # cs', opt, trace)))"
  by pat_completeness auto
termination
  by (relation "measure (\<lambda>call. case call of
         Inl (_, _, _, e, _) \<Rightarrow> size e
       | Inr (_, _, _, cells, _) \<Rightarrow> size_list size cells)")
     (use size_getEmbeddedCells in auto)

subsection \<open>position\<close>

text \<open>
  Lines 46--56 of \<^verbatim>\<open>position\<close>, shared by the getter and the setter: with
  \<^verbatim>\<open>opt.parentRelative\<close> the parent's position is looked up, which needs the graph. The
  argument \<open>parent\<close> is what \<^verbatim>\<open>this.getParentCell()\<close> returns (\<open>None\<close> for \<^verbatim>\<open>null\<close>); the
  result is \<open>None\<close> when \<^verbatim>\<open>parentPosition\<close> stays undefined.
\<close>

definition parentPosition :: "options \<Rightarrow> parent_cell option \<Rightarrow> element \<Rightarrow> error + point option" where
  "parentPosition opt parent e =
     (if parentRelative opt then
        if \<not> graph e then Inl NotInGraph
        else Inr (Some (case parent of
                          Some (ElementCell p) \<Rightarrow> p
                        | Some LinkCell \<Rightarrow> Point 0 0
                        | None \<Rightarrow> Point 0 0))
      else Inr None)"

text \<open>The getter: \<^verbatim>\<open>position()\<close> and \<^verbatim>\<open>position(opt)\<close>.\<close>

definition position_getter :: "options \<Rightarrow> parent_cell option \<Rightarrow> element \<Rightarrow> error + point" where
  "position_getter opt parent e =
     (case parentPosition opt parent e of
        Inl err \<Rightarrow> Inl err
      | Inr parentPos \<Rightarrow>
          let elementPosition = attr_position e
          in Inr (case parentPos of
                    Some q \<Rightarrow> point_difference elementPosition q
                  | None \<Rightarrow> elementPosition))"

text \<open>The setter: \<^verbatim>\<open>position(x, y, opt)\<close> with a number \<^verbatim>\<open>y\<close>.\<close>

definition position_setter :: "real \<Rightarrow> real \<Rightarrow> options \<Rightarrow> parent_cell option \<Rightarrow> element \<Rightarrow> event list
      \<Rightarrow> error + (element \<times> options \<times> event list)" where
  "position_setter x_arg y_arg opt parent e trace =
     (case parentPosition opt parent e of
        Inl err \<Rightarrow> Inl err
      | Inr parentPos \<Rightarrow>
          let x = (case parentPos of Some q \<Rightarrow> x_arg + point_x q | None \<Rightarrow> x_arg);
              y = (case parentPos of Some q \<Rightarrow> y_arg + point_y q | None \<Rightarrow> y_arg)
          in if deep opt then
               let currentPosition = attr_position e
               in translate (Some (x - point_x currentPosition)) (Some (y - point_y currentPosition))
                    opt e trace
             else
               Inr (Element (cid e) (Point x y) (attr_size e) (attr_angle e) (graph e) (embeds e),
                    opt, trace @ [SetPosition (cid e) (Point x y)]))"

subsection \<open>resize\<close>

text \<open>The quadrant table of \<^verbatim>\<open>resize\<close>; \<open>None\<close> is the \<^verbatim>\<open>undefined\<close> of a key it does not hold.\<close>

definition quadrantOf :: "string \<Rightarrow> nat option" where
  "quadrantOf d =
     (if d = ''top-right'' then Some 0
      else if d = ''right'' then Some 0
      else if d = ''top-left'' then Some 1
      else if d = ''top'' then Some 1
      else if d = ''bottom-left'' then Some 2
      else if d = ''left'' then Some 2
      else if d = ''bottom-right'' then Some 3
      else if d = ''bottom'' then Some 3
      else None)"

text \<open>
  \<^verbatim>\<open>bbox[['bottomLeft', 'corner', 'topRight', 'origin'][quadrant]]()\<close>; \<open>None\<close> when the index
  names no method.
\<close>

definition fixedCorner :: "nat \<Rightarrow> rect \<Rightarrow> point option" where
  "fixedCorner quadrant bbox =
     (if quadrant = 0 then Some (rect_bottomLeft bbox)
      else if quadrant = 1 then Some (rect_corner bbox)
      else if quadrant = 2 then Some (rect_topRight bbox)
      else if quadrant = 3 then Some (rect_origin bbox)
      else None)"

text \<open>
  \<^verbatim>\<open>Math.atan(n / d)\<close>: a division by zero gives an infinity, whose arc tangent is a right
  angle, and \<^verbatim>\<open>0 / 0\<close> gives \<^verbatim>\<open>NaN\<close> (\<open>None\<close>).
\<close>

definition atanRatio :: "real \<Rightarrow> real \<Rightarrow> real option" where
  "atanRatio n d =
     (if d \<noteq> 0 then Some (arctan (n / d))
      else if 0 < n then Some (pi / 2)
      else if n < 0 then Some (- (pi / 2))
      else None)"

definition resize :: "real \<Rightarrow> real \<Rightarrow> options \<Rightarrow> parent_cell option \<Rightarrow> element \<Rightarrow> event list
      \<Rightarrow> error + (element \<times> options \<times> event list)" where
  "resize width_arg height_arg opt parent e trace =
     (let trace = trace @ [StartBatch (cid e) ''resize'']
      in case direction opt of
           Some d \<Rightarrow>
             let currentSize = attr_size e;
                 height = (if d = ''left'' \<or> d = ''right'' then dims_height currentSize else height_arg);
                 width = (if d = ''top'' \<or> d = ''bottom'' then dims_width currentSize else width_arg);
                 angle = normalizeAngle (attr_angle e)
             in (case quadrantOf d of
                   None \<Rightarrow> Inl TypeError
                 | Some q \<Rightarrow>
                     let quadrant = (if absolute opt then (q + nat \<lfloor>(angle + 45) / 90\<rfloor>) mod 4 else q)
                     in (case getBBox no_options e of
                           None \<Rightarrow> Inl TypeError
                         | Some bbox \<Rightarrow>
                             (case fixedCorner quadrant bbox of
                                None \<Rightarrow> Inl TypeError
                              | Some fixedPoint \<Rightarrow>
                                  let imageFixedPoint = point_rotate fixedPoint (rect_center bbox) (- angle);
                                      radius = sqrt (width * width + height * height) / 2
                                  in (case (if quadrant mod 2 = 0 then atanRatio height width
                                            else atanRatio width height) of
                                        None \<Rightarrow> Inl NotANumber
                                      | Some t \<Rightarrow>
                                          let alpha = real quadrant * pi / 2 + t - toRad angle;
                                              center = fromPolar radius alpha imageFixedPoint;
                                              origin = point_offset center (width / (- 2)) (height / (- 2));
                                              resized = Element (cid e) (attr_position e) (Dims width height)
                                                          (attr_angle e) (graph e) (embeds e);
                                              trace = trace @ [SetSize (cid e) (Dims width height)]
                                          in (case position_setter (point_x origin) (point_y origin) opt parent
                                                     resized trace of
                                                Inl err \<Rightarrow> Inl err
                                              | Inr (e', opt, trace) \<Rightarrow>
                                                  Inr (e', opt, trace @ [StopBatch (cid e) ''resize'']))))))
         | None \<Rightarrow>
             Inr (Element (cid e) (attr_position e) (Dims width_arg height_arg) (attr_angle e) (graph e) (embeds e),
                  opt,
                  trace @ [SetSize (cid e) (Dims width_arg height_arg), StopBatch (cid e) ''resize'']))"

subsection \<open>rotate and angle\<close>

text \<open>
  The remainder operator \<^verbatim>\<open>%\<close> of JavaScript: the quotient is truncated towards zero, so
  the result has the sign of the dividend.
\<close>

definition js_rem :: "real \<Rightarrow> real \<Rightarrow> real" where
  "js_rem a n = a - n * of_int (if 0 \<le> a / n then \<lfloor>a / n\<rfloor> else \<lceil>a / n\<rceil>)"

text \<open>\<^verbatim>\<open>rotate(angle, absolute, origin, opt)\<close>; the origin is \<open>None\<close> when it is omitted or \<^verbatim>\<open>null\<close>.\<close>

function rotate_elem :: "real \<Rightarrow> bool \<Rightarrow> point option \<Rightarrow> options \<Rightarrow> parent_cell option \<Rightarrow> element
      \<Rightarrow> event list \<Rightarrow> error + (element \<times> options \<times> event list)" where
  "rotate_elem angle_arg absolute_arg None opt parent e trace =
     (let a = (if absolute_arg then angle_arg else js_rem (attr_angle e + angle_arg) 360)
      in Inr (Element (cid e) (attr_position e) (attr_size e) a (graph e) (embeds e),
              opt, trace @ [SetAngle (cid e) a]))"
| "rotate_elem angle_arg absolute_arg (Some origin) opt parent e trace =
     (case getBBox no_options e of
        None \<Rightarrow> Inl TypeError
      | Some bbox \<Rightarrow>
          let size_attr = attr_size e;
              position = attr_position e;
              center = point_rotate (rect_center bbox) origin (attr_angle e - angle_arg);
              dx = point_x center - dims_width size_attr / 2 - point_x position;
              dy = point_y center - dims_height size_attr / 2 - point_y position;
              trace = trace @ [StartBatch (cid e) ''rotate'']
          in (case position_setter (point_x position + dx) (point_y position + dy) opt parent e trace of
                Inl err \<Rightarrow> Inl err
              | Inr (e1, opt, trace) \<Rightarrow>
                  (case rotate_elem angle_arg absolute_arg None opt parent e1 trace of
                     Inl err \<Rightarrow> Inl err
                   | Inr (e2, opt, trace) \<Rightarrow> Inr (e2, opt, trace @ [StopBatch (cid e) ''rotate'']))))"
  by pat_completeness auto
termination
  by (relation "measure (\<lambda>(_, _, origin, _). case origin of None \<Rightarrow> 0 | Some _ \<Rightarrow> 1)") auto

text \<open>The accessor \<^verbatim>\<open>angle()\<close>.\<close>

definition angle :: "element \<Rightarrow> real" where
  "angle e = normalizeAngle (attr_angle e)"

subsection \<open>fitEmbeds\<close>

text \<open>
  Modelled from the spec: \<^verbatim>\<open>normalizeSides\<close> of \<^verbatim>\<open>../util/index.mjs\<close> is not part of the
  sources. It normalizes a padding into its four sides; a single number applies to every
  side (spec, section 4.7), and an absent padding is zero.
\<close>

definition normalizeSides :: "padding_arg option \<Rightarrow> sides" where
  "normalizeSides box =
     (case box of
        None \<Rightarrow> Sides 0 0 0 0
      | Some (Uniform v) \<Rightarrow> Sides v v v v
      | Some (PerSide s) \<Rightarrow> s)"

text \<open>
  \<^verbatim>\<open>fitEmbeds(opt)\<close>; \<open>invoke_fitEmbeds\<close> is \<^verbatim>\<open>invoke(embeddedCells, 'fitEmbeds', opt)\<close>. The
  options object is only read.
\<close>

function fitEmbeds :: "options \<Rightarrow> element \<Rightarrow> event list \<Rightarrow> error + (element \<times> event list)"
  and invoke_fitEmbeds :: "options \<Rightarrow> element list \<Rightarrow> event list \<Rightarrow> error + (element list \<times> event list)"
where
  "fitEmbeds opt e trace =
     (if \<not> graph e then Inl NotInGraph
      else
        let embeddedCells = getEmbeddedCells e
        in if length embeddedCells > 0 then
             let trace = trace @ [StartBatch (cid e) ''fit-embeds'']
             in (case (if deep opt then invoke_fitEmbeds opt embeddedCells trace
                       else Inr (embeddedCells, trace)) of
                   Inl err \<Rightarrow> Inl err
                 | Inr (embeddedCells, trace) \<Rightarrow>
                     (case getCellsBBox embeddedCells of
                        None \<Rightarrow> Inl TypeError
                      | Some bbox \<Rightarrow>
                          let sides = normalizeSides (padding opt);
                              bbox = moveAndExpand bbox
                                       (Rect (- side_left sides) (- side_top sides)
                                             (side_right sides + side_left sides)
                                             (side_bottom sides + side_top sides));
                              pos = Point (rect_x bbox) (rect_y bbox);
                              sz = Dims (rect_width bbox) (rect_height bbox)
                          in Inr (Element (cid e) pos sz (attr_angle e) (graph e) embeddedCells,
                                  trace @ [SetPositionSize (cid e) pos sz, StopBatch (cid e) ''fit-embeds''])))
           else Inr (e, trace))"
| "invoke_fitEmbeds opt [] trace = Inr ([], trace)"
| "invoke_fitEmbeds opt (c # cs) trace =
     (case fitEmbeds opt c trace of
        Inl err \<Rightarrow> Inl err
      | Inr (c', trace) \<Rightarrow>
          (case invoke_fitEmbeds opt cs trace of
             Inl err \<Rightarrow> Inl err
           | Inr (cs', trace) \<Rightarrow> Inr (c' # cs', trace)))"
  by pat_completeness auto
termination
  by (relation "measure (\<lambda>call. case call of
         Inl (_, e, _) \<Rightarrow> size e
       | Inr (_, cells, _) \<Rightarrow> size_list size cells)")
     (use size_getEmbeddedCells in auto)

section \<open>Notions of the specification\<close>

text \<open>
  The embedded subtree of an element: every cell reached through the embedding accessor,
  each cell before its own descendants.
\<close>

fun subtree :: "element \<Rightarrow> element list" where
  "subtree (Element i p s a g es) = (if g then concat (map (\<lambda>c. c # subtree c) es) else [])"

text \<open>An element and its embedded subtree, moved by a delta as a whole.\<close>

fun moved :: "real \<Rightarrow> real \<Rightarrow> element \<Rightarrow> element" where
  "moved tx ty (Element i p s a g es) =
     Element i (Point (point_x p + tx) (point_y p + ty)) s a g (if g then map (moved tx ty) es else es)"



section \<open>Properties of translate\<close>

declare translate.simps [simp del] fitEmbeds.simps(1) [simp del]

lemma element_embedded_induct [case_names embedded]:
  assumes "\<And>e. (\<And>c. c \<in> set (getEmbeddedCells e) \<Longrightarrow> P c) \<Longrightarrow> P e"
  shows "P e"
proof (induction e)
  case (Element i p s a g es)
  show ?case
    by (rule assms) (use Element.IH in \<open>auto simp: getEmbeddedCells_def split: if_splits\<close>)
qed

lemma getCellsBBox_snoc: "\<exists>b. getCellsBBox (cs @ [c]) = Some b"
  by (cases cs) simp_all

lemma getCellsBBox_Some: "cs \<noteq> [] \<Longrightarrow> \<exists>b. getCellsBBox cs = Some b"
  by (cases cs) simp_all

lemma getBBox_Some: "\<exists>b. getBBox opt e = Some b"
  unfolding getBBox_def using getCellsBBox_snoc by simp

lemma restrictTranslation_Inr: "\<exists>d. restrictTranslation opt e tx ty = Inr d"
proof -
  obtain b where "getBBox (no_options\<lparr>deep := True\<rparr>) e = Some b"
    using getBBox_Some by blast
  then show ?thesis
    by (simp add: restrictTranslation_def Let_def split: option.splits)
qed

lemma translate_zero:
  "translate (Some 0) (Some 0) opt e trace = Inr (e, opt, trace)"
  "translate None None opt e trace = Inr (e, opt, trace)"
  "translate (Some 0) None opt e trace = Inr (e, opt, trace)"
  "translate None (Some 0) opt e trace = Inr (e, opt, trace)"
  by (simp_all add: translate.simps)

text \<open>The body of \<^verbatim>\<open>translate\<close> for a non-zero delta, with the applied delta named.\<close>

lemma translate_nonzero:
  assumes "tx \<noteq> 0 \<or> ty \<noteq> 0"
    and "restrictTranslation (opt\<lparr>translateBy := Some (initiator opt e)\<rparr>) e tx ty = Inr (dx, dy)"
  shows "translate (Some tx) (Some ty) opt e trace =
     (let opt2 = opt\<lparr>translateBy := Some (initiator opt e), opt_tx := Some dx, opt_ty := Some dy\<rparr>;
          target = Point (point_x (attr_position e) + dx) (point_y (attr_position e) + dy)
      in case transition opt of
           Some tr \<Rightarrow>
             (case invoke_translate dx dy
                     (case tr of NonObject \<Rightarrow> opt2\<lparr>transition := Some (Object [])\<rparr> | Object props \<Rightarrow> opt2)
                     (getEmbeddedCells e)
                     (trace @ [Transition (cid e) target
                        (transitionSettings (case tr of NonObject \<Rightarrow> Object [] | Object props \<Rightarrow> tr))]) of
                Inl err \<Rightarrow> Inl err
              | Inr (cells, opt3, trace3) \<Rightarrow>
                  Inr (Element (cid e) (attr_position e) (attr_size e) (attr_angle e) (graph e)
                         (if graph e then cells else embeds e), opt3, trace3))
         | None \<Rightarrow>
             (case invoke_translate dx dy opt2 (getEmbeddedCells e)
                     (trace @ [StartBatch (cid e) ''translate'', SetPosition (cid e) target]) of
                Inl err \<Rightarrow> Inl err
              | Inr (cells, opt3, trace3) \<Rightarrow>
                  Inr (Element (cid e) target (attr_size e) (attr_angle e) (graph e)
                         (if graph e then cells else embeds e), opt3,
                       trace3 @ [StopBatch (cid e) ''translate''])))"
  using assms
  by (subst translate.simps) (auto simp: Let_def initiator_def split: option.splits)

lemma invoke_translate_Inr:
  assumes "\<And>c opt trace. c \<in> set cells \<Longrightarrow> \<exists>r. translate (Some tx) (Some ty) opt c trace = Inr r"
  shows "\<exists>r. invoke_translate tx ty opt cells trace = Inr r"
  using assms
proof (induction cells arbitrary: opt trace)
  case Nil
  then show ?case by simp
next
  case (Cons c cs)
  obtain c' opt1 trace1 where 1: "translate (Some tx) (Some ty) opt c trace = Inr (c', opt1, trace1)"
    using Cons.prems [of c opt trace] by auto
  obtain r where 2: "invoke_translate tx ty opt1 cs trace1 = Inr r"
    using Cons.IH [of opt1 trace1] Cons.prems by auto
  show ?case using 1 2 by (cases r) simp
qed

lemma translate_Inr: "\<exists>r. translate tx ty opt e trace = Inr r"
proof (induction e arbitrary: tx ty opt trace rule: element_embedded_induct)
  case (embedded e)
  have "\<exists>r. invoke_translate dx dy opt' (getEmbeddedCells e) trace' = Inr r"
    for dx dy opt' trace'
    by (rule invoke_translate_Inr) (use embedded in blast)
  then have kids: "invoke_translate dx dy opt' (getEmbeddedCells e) trace' \<noteq> Inl x"
    for dx dy opt' trace' x
    by (metis Inl_Inr_False)
  define vx where "vx = (case tx of None \<Rightarrow> 0 | Some v \<Rightarrow> v)"
  define vy where "vy = (case ty of None \<Rightarrow> 0 | Some v \<Rightarrow> v)"
  have args: "translate tx ty opt e trace = translate (Some vx) (Some vy) opt e trace"
    by (simp add: translate.simps vx_def vy_def)
  show ?case
  proof (cases "vx = 0 \<and> vy = 0")
    case True
    then show ?thesis by (simp add: args translate_zero)
  next
    case False
    obtain dx dy where d: "restrictTranslation (opt\<lparr>translateBy := Some (initiator opt e)\<rparr>) e vx vy = Inr (dx, dy)"
      using restrictTranslation_Inr [of _ e vx vy] by (metis surj_pair)
    have nz: "vx \<noteq> 0 \<or> vy \<noteq> 0" using False by simp
    show ?thesis
      unfolding args translate_nonzero [OF nz d] Let_def
      using kids by (auto split: option.splits sum.splits)
  qed
qed


lemma subtree_embedded: "subtree e = concat (map (\<lambda>c. c # subtree c) (getEmbeddedCells e))"
  by (cases e) (simp add: getEmbeddedCells_def)

lemma moved_embedded:
  "moved tx ty e =
     Element (cid e) (Point (point_x (attr_position e) + tx) (point_y (attr_position e) + ty))
       (attr_size e) (attr_angle e) (graph e)
       (if graph e then map (moved tx ty) (getEmbeddedCells e) else embeds e)"
  by (cases e) (simp add: getEmbeddedCells_def)

text \<open>
  The embedded subtree holds the cells that the deep embedding accessor of \<^verbatim>\<open>getBBox\<close>
  collects breadth-first.
\<close>

lemma set_breadthFirst: "set (breadthFirst queue) = (\<Union>c \<in> set queue. set (c # subtree c))"
proof (induction queue rule: breadthFirst.induct)
  case 1
  show ?case by simp
next
  case (2 c queue)
  have "set (subtree c) = (\<Union>d \<in> set (getEmbeddedCells c). set (d # subtree d))"
    by (subst subtree_embedded) simp
  then show ?case
    using 2 by auto
qed

lemma set_getEmbeddedCells_deep: "set (getEmbeddedCells_deep e) = set (subtree e)"
proof (cases "graph e")
  case True
  then show ?thesis
    by (simp add: getEmbeddedCells_deep_def set_breadthFirst subtree_embedded [of e])
next
  case False
  then show ?thesis
    by (cases e) (simp add: getEmbeddedCells_deep_def)
qed

lemma options_settled:
  "translateBy opt = Some t \<Longrightarrow> opt_tx opt = Some dx \<Longrightarrow> opt_ty opt = Some dy
   \<Longrightarrow> opt\<lparr>translateBy := Some t, opt_tx := Some dx, opt_ty := Some dy\<rparr> = opt"
  by (cases opt) simp

lemma restrictTranslation_other:
  "restrictedArea opt = None \<or> translateBy opt \<noteq> Some (cid e)
   \<Longrightarrow> restrictTranslation opt e tx ty = Inr (tx, ty)"
  by (auto simp: restrictTranslation_def split: option.splits)

lemma invoke_translate_plain:
  assumes "\<And>c trace. c \<in> set cells \<Longrightarrow>
             \<exists>trace'. translate (Some dx) (Some dy) opt c trace = Inr (moved dx dy c, opt, trace')"
  shows "\<exists>trace'. invoke_translate dx dy opt cells trace = Inr (map (moved dx dy) cells, opt, trace')"
  using assms
proof (induction cells arbitrary: trace)
  case Nil
  then show ?case by simp
next
  case (Cons c cs)
  obtain trace1 where 1: "translate (Some dx) (Some dy) opt c trace = Inr (moved dx dy c, opt, trace1)"
    using Cons.prems [of c trace] by auto
  obtain trace2 where 2: "invoke_translate dx dy opt cs trace1 = Inr (map (moved dx dy) cs, opt, trace2)"
    using Cons.IH [of trace1] Cons.prems by auto
  show ?case using 1 2 by simp
qed

lemma translate_descend_plain:
  assumes "dx \<noteq> 0 \<or> dy \<noteq> 0"
    and "translateBy opt = Some t" "opt_tx opt = Some dx" "opt_ty opt = Some dy"
    and "transition opt = None"
    and "restrictedArea opt = None \<or> t \<notin> cid ` set (e # subtree e)"
  shows "\<exists>trace'. translate (Some dx) (Some dy) opt e trace = Inr (moved dx dy e, opt, trace')"
  using assms(6)
proof (induction e arbitrary: trace rule: element_embedded_induct)
  case (embedded e)
  have init: "initiator opt e = t"
    using assms(2) by (simp add: initiator_def)
  have same: "opt\<lparr>translateBy := Some t\<rparr> = opt"
    using assms(2) by (cases opt) simp
  have settled: "opt\<lparr>translateBy := Some t, opt_tx := Some dx, opt_ty := Some dy\<rparr> = opt"
    using assms(2-4) by (rule options_settled)
  have r: "restrictTranslation (opt\<lparr>translateBy := Some (initiator opt e)\<rparr>) e dx dy = Inr (dx, dy)"
    unfolding init same
    by (rule restrictTranslation_other) (use embedded.prems assms(2) in auto)
  have "\<exists>trace'. translate (Some dx) (Some dy) opt c trace1 = Inr (moved dx dy c, opt, trace')"
    if "c \<in> set (getEmbeddedCells e)" for c trace1
  proof (rule embedded.IH [OF that])
    show "restrictedArea opt = None \<or> t \<notin> cid ` set (c # subtree c)"
      using embedded.prems that by (subst (asm) subtree_embedded) auto
  qed
  then obtain trace2 where k: "invoke_translate dx dy opt (getEmbeddedCells e)
        (trace @ [StartBatch (cid e) ''translate'',
                  SetPosition (cid e) (Point (point_x (attr_position e) + dx) (point_y (attr_position e) + dy))])
      = Inr (map (moved dx dy) (getEmbeddedCells e), opt, trace2)"
    using invoke_translate_plain by blast
  show ?case
    unfolding translate_nonzero [OF assms(1) r] init settled Let_def
    using k assms(5) by (simp add: moved_embedded [of dx dy e])
qed





lemma invoke_translate_zero: "invoke_translate 0 0 opt cells trace = Inr (cells, opt, trace)"
  by (induction cells) (simp_all add: translate_zero)

lemma moved_zero: "moved 0 0 e = e"
  by (induction e) (simp add: map_idI)

lemma map_moved_zero: "map (moved 0 0) cells = cells"
  by (simp add: map_idI moved_zero)

lemma translate_root_plain:
  assumes "tx \<noteq> 0 \<or> ty \<noteq> 0"
    and "transition opt = None"
    and "restrictTranslation (opt\<lparr>translateBy := Some (initiator opt e)\<rparr>) e tx ty = Inr (dx, dy)"
    and "restrictedArea opt = None \<or> initiator opt e \<notin> cid ` set (subtree e)"
  shows "\<exists>trace'. translate (Some tx) (Some ty) opt e trace =
           Inr (moved dx dy e,
                opt\<lparr>translateBy := Some (initiator opt e), opt_tx := Some dx, opt_ty := Some dy\<rparr>,
                trace')"
proof -
  let ?opt2 = "opt\<lparr>translateBy := Some (initiator opt e), opt_tx := Some dx, opt_ty := Some dy\<rparr>"
  have "\<exists>trace'. invoke_translate dx dy ?opt2 (getEmbeddedCells e) trace1 =
          Inr (map (moved dx dy) (getEmbeddedCells e), ?opt2, trace')" for trace1
  proof (cases "dx = 0 \<and> dy = 0")
    case True
    then show ?thesis by (simp add: invoke_translate_zero map_moved_zero)
  next
    case False
    have "\<exists>trace'. translate (Some dx) (Some dy) ?opt2 c trace2 = Inr (moved dx dy c, ?opt2, trace')"
      if "c \<in> set (getEmbeddedCells e)" for c trace2
    proof (rule translate_descend_plain [where t = "initiator opt e"])
      show "restrictedArea ?opt2 = None \<or> initiator opt e \<notin> cid ` set (c # subtree c)"
        using assms(4) that by (subst (asm) subtree_embedded) auto
    qed (use False assms(2) in auto)
    then show ?thesis
      using invoke_translate_plain by blast
  qed
  then obtain trace2 where "invoke_translate dx dy ?opt2 (getEmbeddedCells e)
      (trace @ [StartBatch (cid e) ''translate'',
                SetPosition (cid e) (Point (point_x (attr_position e) + dx) (point_y (attr_position e) + dy))])
      = Inr (map (moved dx dy) (getEmbeddedCells e), ?opt2, trace2)"
    by blast
  then show ?thesis
    unfolding translate_nonzero [OF assms(1) assms(3)] Let_def
    using assms(2) by (simp add: moved_embedded [of dx dy e])
qed


lemma translate_root_position:
  assumes "tx \<noteq> 0 \<or> ty \<noteq> 0"
    and "transition opt = None"
    and "restrictTranslation (opt\<lparr>translateBy := Some (initiator opt e)\<rparr>) e tx ty = Inr (dx, dy)"
  shows "\<exists>e' opt' trace'. translate (Some tx) (Some ty) opt e trace = Inr (e', opt', trace')
           \<and> attr_position e' = Point (point_x (attr_position e) + dx) (point_y (attr_position e) + dy)
           \<and> cid e' = cid e \<and> attr_size e' = attr_size e \<and> attr_angle e' = attr_angle e"
proof -
  let ?opt2 = "opt\<lparr>translateBy := Some (initiator opt e), opt_tx := Some dx, opt_ty := Some dy\<rparr>"
  let ?trace1 = "trace @ [StartBatch (cid e) ''translate'',
                SetPosition (cid e) (Point (point_x (attr_position e) + dx) (point_y (attr_position e) + dy))]"
  have "\<exists>r. invoke_translate dx dy ?opt2 (getEmbeddedCells e) ?trace1 = Inr r"
    by (rule invoke_translate_Inr) (rule translate_Inr)
  then obtain cells opt3 trace3 where
    "invoke_translate dx dy ?opt2 (getEmbeddedCells e) ?trace1 = Inr (cells, opt3, trace3)"
    by (metis surj_pair)
  then show ?thesis
    unfolding translate_nonzero [OF assms(1) assms(3)] Let_def
    using assms(2) by simp
qed


lemma cid_moved [simp]: "cid (moved tx ty e) = cid e"
  by (cases e) simp

lemma attr_position_moved [simp]:
  "attr_position (moved tx ty e) = Point (point_x (attr_position e) + tx) (point_y (attr_position e) + ty)"
  by (cases e) simp

lemma subtree_moved: "subtree (moved tx ty e) = map (moved tx ty) (subtree e)"
  by (induction e) (simp add: map_concat comp_def cong: map_cong)

section \<open>The claims\<close>

text \<open>
  Claim C7. \<^verbatim>\<open>translate(0, 0)\<close>, and \<^verbatim>\<open>translate\<close> with one or both deltas omitted and the
  other zero, is a strict no-op: the element (position, size, angle and embedded cells) and
  the options object are returned as they were, and the trace of collaborator calls gets
  no entry, so no change notification is sent and no batch is started.
\<close>

theorem translate_zero_noop:
  "translate (Some 0) (Some 0) opt e trace = Inr (e, opt, trace)
   \<and> translate None None opt e trace = Inr (e, opt, trace)
   \<and> translate (Some 0) None opt e trace = Inr (e, opt, trace)
   \<and> translate None (Some 0) opt e trace = Inr (e, opt, trace)"
  by (simp add: translate_zero)

theorem translate_zero_noop_witness:
  "translate (Some 0) (Some 0) no_options
     (Element ''a'' (Point 3 4) (Dims 10 10) 30 True [Element ''b'' (Point 5 6) (Dims 2 2) 0 True []]) []
   = Inr (Element ''a'' (Point 3 4) (Dims 10 10) 30 True [Element ''b'' (Point 5 6) (Dims 2 2) 0 True []],
          no_options, [])"
  using translate_zero_noop [of no_options
     "Element ''a'' (Point 3 4) (Dims 10 10) 30 True [Element ''b'' (Point 5 6) (Dims 2 2) 0 True []]" "[]"]
  by simp

text \<open>
  Claim C9. For an element that is not a member of a graph, \<^verbatim>\<open>getBBox({ deep: true })\<close> does
  not fail: it returns the element's own rectangle (position and size), the same as the
  shallow \<^verbatim>\<open>getBBox()\<close>.
\<close>

theorem getBBox_deep_unattached:
  assumes "\<not> graph e"
  shows "getBBox (opt\<lparr>deep := True\<rparr>) e =
           Some (Rect (point_x (attr_position e)) (point_y (attr_position e))
                      (dims_width (attr_size e)) (dims_height (attr_size e)))
         \<and> getBBox (opt\<lparr>deep := True\<rparr>) e = getBBox (opt\<lparr>deep := False\<rparr>) e"
  using assms by (simp add: getBBox_def own_rect_def)

theorem getBBox_deep_unattached_witness:
  "getBBox (no_options\<lparr>deep := True\<rparr>)
     (Element ''a'' (Point 3 4) (Dims 10 20) 30 False [Element ''b'' (Point 50 60) (Dims 2 2) 0 False []])
   = Some (Rect 3 4 10 20)"
  using getBBox_deep_unattached [of
     "Element ''a'' (Point 3 4) (Dims 10 20) 30 False [Element ''b'' (Point 50 60) (Dims 2 2) 0 False []]"
     no_options]
  by simp

text \<open>
  Claim C3. A translation by a non-zero delta, without a restricted area (and without a
  transition), moves the element by exactly the delta and every cell of its embedded
  subtree by the same delta; the subtree keeps its cells.
\<close>

theorem translate_moves_subtree:
  assumes "tx \<noteq> 0 \<or> ty \<noteq> 0"
    and "restrictedArea opt = None"
    and "transition opt = None"
  shows "\<exists>e' opt' trace'.
           translate (Some tx) (Some ty) opt e trace = Inr (e', opt', trace')
         \<and> attr_position e' = Point (point_x (attr_position e) + tx) (point_y (attr_position e) + ty)
         \<and> map cid (subtree e') = map cid (subtree e)
         \<and> map attr_position (subtree e') =
             map (\<lambda>c. Point (point_x (attr_position c) + tx) (point_y (attr_position c) + ty)) (subtree e)"
proof -
  have r: "restrictTranslation (opt\<lparr>translateBy := Some (initiator opt e)\<rparr>) e tx ty = Inr (tx, ty)"
    by (rule restrictTranslation_other) (simp add: assms(2))
  obtain trace' where "translate (Some tx) (Some ty) opt e trace =
      Inr (moved tx ty e, opt\<lparr>translateBy := Some (initiator opt e), opt_tx := Some tx, opt_ty := Some ty\<rparr>, trace')"
    using translate_root_plain [OF assms(1) assms(3) r] assms(2) by blast
  then show ?thesis
    by (simp add: subtree_moved comp_def)
qed

theorem translate_moves_subtree_witness:
  "\<exists>e' opt' trace'.
     translate (Some 20) (Some (- 1)) no_options
       (Element ''a'' (Point 0 0) (Dims 10 10) 0 True
          [Element ''b'' (Point 2 3) (Dims 4 4) 0 True [Element ''c'' (Point 5 5) (Dims 1 1) 0 True []],
           Element ''d'' (Point 7 7) (Dims 1 1) 90 True []]) []
       = Inr (e', opt', trace')
     \<and> attr_position e' = Point 20 (- 1)
     \<and> map cid (subtree e') = [''b'', ''c'', ''d'']
     \<and> map attr_position (subtree e') = [Point 22 2, Point 25 4, Point 27 6]"
  using translate_moves_subtree [of 20 "- 1" no_options
       "Element ''a'' (Point 0 0) (Dims 10 10) 0 True
          [Element ''b'' (Point 2 3) (Dims 4 4) 0 True [Element ''c'' (Point 5 5) (Dims 1 1) 0 True []],
           Element ''d'' (Point 7 7) (Dims 1 1) 90 True []]" "[]"]
  by (simp add: no_options_def)







text \<open>
  Claim C2 states the clamp for every call with a restricted area. A call with a zero
  delta returns before the restricted area is read: an element at \<open>(20, 0)\<close> of size
  \<open>10 \<times> 10\<close> stays at \<open>x = 20\<close> under the restricted area \<open>(0, 0, 15, 15)\<close>, where the
  clamp of the claim gives \<open>5\<close>.
\<close>

theorem translate_zero_not_clamped_counterexample:
  "translate (Some 0) (Some 0) (no_options\<lparr>restrictedArea := Some (Rect 0 0 15 15)\<rparr>)
     (Element ''a'' (Point 20 0) (Dims 10 10) 0 False []) []
   = Inr (Element ''a'' (Point 20 0) (Dims 10 10) 0 False [],
          no_options\<lparr>restrictedArea := Some (Rect 0 0 15 15)\<rparr>, [])
   \<and> getBBox (no_options\<lparr>deep := True\<rparr>) (Element ''a'' (Point 20 0) (Dims 10 10) 0 False [])
       = Some (Rect 20 0 10 10)
   \<and> point_x (attr_position (Element ''a'' (Point 20 0) (Dims 10 10) 0 False []))
       \<noteq> max (0 + (20 - 20)) (min (0 + 15 + (20 - 20) - 10) (20 + 0))"
  by (simp add: translate_zero getBBox_def own_rect_def)

text \<open>
  Claim C2, amended. When \<^verbatim>\<open>translate(tx, ty, opt)\<close> is called with a non-zero delta, without
  a transition, with \<^verbatim>\<open>opt.restrictedArea\<close> present and \<^verbatim>\<open>opt.translateBy\<close> absent or equal to
  the element's id, the new position is the clamp of the claim: \<open>bbox\<close> is the deep bounding
  box and \<open>dx\<close>, \<open>dy\<close> the offsets of the position in it. The witness is the example of the
  spec: deep box \<open>(0, 0, 10, 10)\<close>, restricted area \<open>(0, 0, 15, 15)\<close>, \<^verbatim>\<open>translate(20, 0)\<close>
  ends at \<open>(5, 0)\<close>.
\<close>

theorem translate_restricted_clamps:
  assumes "tx \<noteq> 0 \<or> ty \<noteq> 0"
    and "transition opt = None"
    and "restrictedArea opt = Some ra"
    and "translateBy opt = None \<or> translateBy opt = Some (cid e)"
    and "getBBox (no_options\<lparr>deep := True\<rparr>) e = Some bbox"
    and "dx = point_x (attr_position e) - rect_x bbox"
    and "dy = point_y (attr_position e) - rect_y bbox"
  shows "\<exists>e' opt' trace'.
           translate (Some tx) (Some ty) opt e trace = Inr (e', opt', trace')
         \<and> point_x (attr_position e') =
             max (rect_x ra + dx) (min (rect_x ra + rect_width ra + dx - rect_width bbox)
                                      (point_x (attr_position e) + tx))
         \<and> point_y (attr_position e') =
             max (rect_y ra + dy) (min (rect_y ra + rect_height ra + dy - rect_height bbox)
                                      (point_y (attr_position e) + ty))"
proof -
  let ?x = "max (rect_x ra + dx) (min (rect_x ra + rect_width ra + dx - rect_width bbox)
                                      (point_x (attr_position e) + tx))"
  let ?y = "max (rect_y ra + dy) (min (rect_y ra + rect_height ra + dy - rect_height bbox)
                                      (point_y (attr_position e) + ty))"
  have init: "initiator opt e = cid e"
    using assms(4) by (auto simp: initiator_def)
  have r: "restrictTranslation (opt\<lparr>translateBy := Some (initiator opt e)\<rparr>) e tx ty =
             Inr (?x - point_x (attr_position e), ?y - point_y (attr_position e))"
    using assms(3,5) by (simp add: restrictTranslation_def init Let_def assms(6,7))
  show ?thesis
    using translate_root_position [OF assms(1,2) r, of trace] by auto
qed

theorem translate_restricted_clamps_witness:
  "\<exists>e' opt' trace'.
     translate (Some 20) (Some 0) (no_options\<lparr>restrictedArea := Some (Rect 0 0 15 15)\<rparr>)
       (Element ''a'' (Point 0 0) (Dims 10 10) 0 True []) [] = Inr (e', opt', trace')
     \<and> attr_position e' = Point 5 0"
proof -
  let ?e = "Element ''a'' (Point 0 0) (Dims 10 10) 0 True []"
  let ?opt = "no_options\<lparr>restrictedArea := Some (Rect 0 0 15 15)\<rparr>"
  have nz: "(20::real) \<noteq> 0 \<or> (0::real) \<noteq> 0"
    by simp
  have b: "getBBox (no_options\<lparr>deep := True\<rparr>) ?e = Some (Rect 0 0 10 10)"
    by (simp add: getBBox_def getEmbeddedCells_deep_def getEmbeddedCells_def own_rect_def no_options_def)
  have "\<exists>e' opt' trace'.
     translate (Some 20) (Some 0) ?opt ?e [] = Inr (e', opt', trace')
     \<and> point_x (attr_position e') = 5 \<and> point_y (attr_position e') = 0"
    using translate_restricted_clamps [OF nz _ _ _ b refl refl, of ?opt "Rect 0 0 15 15" "[]"]
    by (simp add: no_options_def)
  then show ?thesis
    by (metis point.collapse)
qed

lemma invoke_fitEmbeds_length:
  "invoke_fitEmbeds opt cells trace = Inr (cells', trace') \<Longrightarrow> length cells' = length cells"
  by (induction cells arbitrary: cells' trace trace') (auto split: sum.splits)

lemma invoke_fitEmbeds_Inl:
  "invoke_fitEmbeds opt cells trace = Inl err
   \<Longrightarrow> \<exists>c \<in> set cells. \<exists>trace1. fitEmbeds opt c trace1 = Inl err"
proof (induction cells arbitrary: trace)
  case Nil
  then show ?case by simp
next
  case (Cons c cs)
  show ?case
  proof (cases "fitEmbeds opt c trace")
    case (Inl err')
    then show ?thesis
      using Cons.prems by auto
  next
    case (Inr r)
    then have "invoke_fitEmbeds opt cs (snd r) = Inl err"
      using Cons.prems by (cases r) (auto split: sum.splits)
    then show ?thesis
      using Cons.IH by auto
  qed
qed

lemma fitEmbeds_unattached: "\<not> graph e \<Longrightarrow> fitEmbeds opt e trace = Inl NotInGraph"
  by (simp add: fitEmbeds.simps)

lemma fitEmbeds_no_embeds: "graph e \<Longrightarrow> embeds e = [] \<Longrightarrow> fitEmbeds opt e trace = Inr (e, trace)"
  by (simp add: fitEmbeds.simps getEmbeddedCells_def)

lemma fitEmbeds_Inl:
  "fitEmbeds opt e trace = Inl err
   \<Longrightarrow> err = NotInGraph \<and> (\<not> graph e \<or> deep opt \<and> (\<exists>c \<in> set (subtree e). \<not> graph c))"
proof (induction e arbitrary: trace err rule: element_embedded_induct)
  case (embedded e)
  show ?case
  proof (cases "graph e \<and> getEmbeddedCells e \<noteq> []")
    case False
    then show ?thesis
      using embedded.prems by (auto simp: fitEmbeds.simps split: if_splits)
  next
    case True
    let ?trace1 = "trace @ [StartBatch (cid e) ''fit-embeds'']"
    show ?thesis
    proof (cases "deep opt")
      case False
      obtain b where "getCellsBBox (getEmbeddedCells e) = Some b"
        using True getCellsBBox_Some by blast
      then show ?thesis
        using embedded.prems True False by (simp add: fitEmbeds.simps Let_def)
    next
      case deep: True
      show ?thesis
      proof (cases "invoke_fitEmbeds opt (getEmbeddedCells e) ?trace1")
        case (Inl err')
        then obtain c trace2 where c: "c \<in> set (getEmbeddedCells e)" "fitEmbeds opt c trace2 = Inl err'"
          using invoke_fitEmbeds_Inl by blast
        have "err = err'"
          using embedded.prems True deep Inl by (simp add: fitEmbeds.simps Let_def)
        moreover have "err' = NotInGraph \<and> (\<not> graph c \<or> deep opt \<and> (\<exists>d \<in> set (subtree c). \<not> graph d))"
          using embedded.IH [OF c] .
        moreover have "set (c # subtree c) \<subseteq> set (subtree e)"
          using c(1) by (subst (2) subtree_embedded) auto
        ultimately show ?thesis
          using deep by auto
      next
        case (Inr r)
        obtain cells' trace2 where r: "r = (cells', trace2)"
          by (cases r)
        have "length cells' = length (getEmbeddedCells e)"
          using Inr r invoke_fitEmbeds_length by blast
        then have "cells' \<noteq> []"
          using True by auto
        then obtain b where "getCellsBBox cells' = Some b"
          using getCellsBBox_Some by blast
        then show ?thesis
          using embedded.prems True deep Inr r by (simp add: fitEmbeds.simps Let_def)
      qed
    qed
  qed
qed

lemma translate_not_Inl: "translate tx ty opt e trace \<noteq> Inl err"
  using translate_Inr [of tx ty opt e trace] by auto

lemma position_getter_Inl:
  "position_getter opt parent e = Inl err \<longleftrightarrow> err = NotInGraph \<and> \<not> graph e \<and> parentRelative opt"
  by (auto simp: position_getter_def parentPosition_def Let_def)

lemma position_setter_Inl:
  "position_setter x y opt parent e trace = Inl err \<longleftrightarrow> err = NotInGraph \<and> \<not> graph e \<and> parentRelative opt"
  by (auto simp: position_setter_def parentPosition_def Let_def translate_not_Inl)

lemma resize_NotInGraph:
  "resize w h opt parent e trace = Inl NotInGraph \<Longrightarrow> \<not> graph e \<and> parentRelative opt"
  by (auto simp: resize_def Let_def position_setter_Inl split: option.splits sum.splits)

lemma rotate_elem_NotInGraph:
  "rotate_elem a ab origin opt parent e trace = Inl NotInGraph \<Longrightarrow> \<not> graph e \<and> parentRelative opt"
  by (cases origin) (auto simp: Let_def position_setter_Inl split: option.splits sum.splits)

text \<open>
  Claim C8. For an element that is not a member of a graph, \<^verbatim>\<open>position\<close> with
  \<^verbatim>\<open>opt.parentRelative\<close> (getter and setter) and \<^verbatim>\<open>fitEmbeds\<close> raise the error
  \<^verbatim>\<open>'Element must be part of a graph.'\<close>; a member of a graph with no embedded cells makes
  \<^verbatim>\<open>fitEmbeds\<close> a no-op. These are the only places the error comes from: \<^verbatim>\<open>position\<close> fails
  in no other way, \<^verbatim>\<open>fitEmbeds\<close> fails only with this error, on the element or (with
  \<^verbatim>\<open>opt.deep\<close>) on a descendant that is not a member of the graph, \<^verbatim>\<open>resize\<close> and \<^verbatim>\<open>rotate\<close>
  raise it only through \<^verbatim>\<open>position\<close>, and \<^verbatim>\<open>translate\<close> and \<^verbatim>\<open>getBBox\<close> never fail.
\<close>

theorem unattached_element_errors:
  "(\<not> graph e \<and> parentRelative opt \<longrightarrow>
      position_getter opt parent e = Inl NotInGraph
      \<and> position_setter x y opt parent e trace = Inl NotInGraph)
   \<and> (\<not> graph e \<longrightarrow> fitEmbeds opt e trace = Inl NotInGraph)
   \<and> (graph e \<and> embeds e = [] \<longrightarrow> fitEmbeds opt e trace = Inr (e, trace))
   \<and> (position_getter opt parent e = Inl err \<longrightarrow> err = NotInGraph \<and> \<not> graph e \<and> parentRelative opt)
   \<and> (position_setter x y opt parent e trace = Inl err \<longrightarrow>
        err = NotInGraph \<and> \<not> graph e \<and> parentRelative opt)
   \<and> (fitEmbeds opt e trace = Inl err \<longrightarrow>
        err = NotInGraph \<and> (\<not> graph e \<or> deep opt \<and> (\<exists>c \<in> set (subtree e). \<not> graph c)))
   \<and> (resize w h opt parent e trace = Inl NotInGraph \<longrightarrow> \<not> graph e \<and> parentRelative opt)
   \<and> (rotate_elem a ab origin opt parent e trace = Inl NotInGraph \<longrightarrow> \<not> graph e \<and> parentRelative opt)
   \<and> translate tx ty opt e trace \<noteq> Inl err
   \<and> getBBox opt e \<noteq> None"
  using fitEmbeds_Inl [of opt e trace err] resize_NotInGraph [of w h opt parent e trace]
    rotate_elem_NotInGraph [of a ab origin opt parent e trace] getBBox_Some [of opt e]
  by (auto simp: position_getter_Inl position_setter_Inl fitEmbeds_unattached fitEmbeds_no_embeds
      translate_not_Inl)

theorem unattached_element_errors_witness:
  "position_getter (no_options\<lparr>parentRelative := True\<rparr>) None
       (Element ''a'' (Point 3 4) (Dims 10 10) 0 False []) = Inl NotInGraph
   \<and> position_setter 1 2 (no_options\<lparr>parentRelative := True\<rparr>) None
       (Element ''a'' (Point 3 4) (Dims 10 10) 0 False []) [] = Inl NotInGraph
   \<and> fitEmbeds (no_options\<lparr>parentRelative := True\<rparr>) (Element ''a'' (Point 3 4) (Dims 10 10) 0 False []) []
       = Inl NotInGraph
   \<and> fitEmbeds no_options (Element ''b'' (Point 3 4) (Dims 10 10) 0 True []) []
       = Inr (Element ''b'' (Point 3 4) (Dims 10 10) 0 True [], [])"
  using unattached_element_errors [where e = "Element ''a'' (Point 3 4) (Dims 10 10) 0 False []"
      and opt = "no_options\<lparr>parentRelative := True\<rparr>" and parent = None and x = 1 and y = 2
      and trace = "[]" and err = NotInGraph and w = 1 and h = 1 and a = 0 and ab = True
      and origin = None and tx = None and ty = None]
    unattached_element_errors [where e = "Element ''b'' (Point 3 4) (Dims 10 10) 0 True []"
      and opt = no_options and parent = None and x = 1 and y = 2
      and trace = "[]" and err = NotInGraph and w = 1 and h = 1 and a = 0 and ab = True
      and origin = None and tx = None and ty = None]
  by simp

section \<open>Properties of angles\<close>







text \<open>
  Claim C6 says that a direction outside the eight recognized values takes the
  unanchored path. Such a direction is truthy, so the source enters the anchored path,
  finds no quadrant for it and fails at the corner lookup: \<^verbatim>\<open>resize(20, 10, { direction:
  'center' })\<close> ends in a type error.
\<close>

theorem resize_unknown_direction_counterexample:
  "resize 20 10 (no_options\<lparr>direction := Some ''center''\<rparr>) None
     (Element ''a'' (Point 0 0) (Dims 10 10) 0 False []) [] = Inl TypeError"
  by (simp add: resize_def quadrantOf_def Let_def)

text \<open>
  Claim C6, amended. Without a direction (the field absent or falsy) \<^verbatim>\<open>resize\<close> overwrites
  the size with the arguments, inside one batch, and raises no error. A direction outside
  the eight recognized values does not take this path: the call ends in a type error
  before any size is set.
\<close>

theorem resize_direction_paths:
  "(direction opt = None \<longrightarrow>
      resize w h opt parent e trace =
        Inr (Element (cid e) (attr_position e) (Dims w h) (attr_angle e) (graph e) (embeds e), opt,
             trace @ [StartBatch (cid e) ''resize'', SetSize (cid e) (Dims w h), StopBatch (cid e) ''resize'']))
   \<and> (direction opt = Some d
        \<and> d \<notin> {''left'', ''right'', ''top'', ''bottom'', ''top-left'', ''top-right'', ''bottom-left'',
                 ''bottom-right''} \<longrightarrow>
      resize w h opt parent e trace = Inl TypeError)"
  by (simp add: resize_def quadrantOf_def Let_def)

theorem resize_direction_paths_witness:
  "resize 20 10 no_options None (Element ''a'' (Point 0 0) (Dims 10 10) 0 False []) []
     = Inr (Element ''a'' (Point 0 0) (Dims 20 10) 0 False [], no_options,
            [StartBatch ''a'' ''resize'', SetSize ''a'' (Dims 20 10), StopBatch ''a'' ''resize''])
   \<and> resize 20 10 (no_options\<lparr>direction := Some ''middle''\<rparr>) None
       (Element ''a'' (Point 0 0) (Dims 10 10) 0 False []) [] = Inl TypeError"
  using resize_direction_paths [of no_options 20 10 None "Element ''a'' (Point 0 0) (Dims 10 10) 0 False []" "[]" "''x''"]
    resize_direction_paths [of "no_options\<lparr>direction := Some ''middle''\<rparr>" 20 10 None
       "Element ''a'' (Point 0 0) (Dims 10 10) 0 False []" "[]" "''middle''"]
  by (simp add: no_options_def)

section \<open>Properties of resize\<close>
















end
